theory Spec2Isabelle
  imports Complex_Main "HOL-Library.Log_Nat"
begin

section \<open>JavaScript numbers\<close>

text \<open>
  Every field of \<^verbatim>\<open>GameLoop\<close> is a TypeScript \<^verbatim>\<open>number\<close>: an IEEE 754 binary64
  value. A finite number is \<open>Fin x\<close> with \<open>x\<close> its value (\<open>Fin 0\<close> is \<open>+0\<close>); \<open>NegZero\<close>
  is \<open>-0\<close>. The arithmetic operations compute the exact result and round it to the
  nearest binary64 value, ties to even; what is too large becomes an infinity.
\<close>

datatype jsnum = Fin real | NegZero | PInf | NInf | NaN

text \<open>
  \<open>ilog2 x\<close> is the integer \<open>k\<close> with \<open>2\<^sup>k \<le> x < 2\<^sup>k\<^sup>+\<^sup>1\<close>, for \<open>x > 0\<close>. A binary64 value
  near \<open>x\<close> is a multiple of \<open>2\<close> to the power \<open>expo x\<close>: 53 significant bits, and no
  exponent below that of the subnormal numbers.
\<close>

definition ilog2 :: "real \<Rightarrow> int" where
  "ilog2 x = (if 1 \<le> x then bitlen \<lfloor>x\<rfloor> - 1 else - bitlen (\<lceil>1 / x\<rceil> - 1))"

definition expo :: "real \<Rightarrow> int" where
  "expo x = max (ilog2 \<bar>x\<bar> - 52) (- 1074)"

text \<open>The nearest integer, a tie going to the even one.\<close>

definition rne :: "real \<Rightarrow> int" where
  "rne q =
     (if q - of_int \<lfloor>q\<rfloor> < 1 / 2 then \<lfloor>q\<rfloor>
      else if 1 / 2 < q - of_int \<lfloor>q\<rfloor> then \<lfloor>q\<rfloor> + 1
      else if even \<lfloor>q\<rfloor> then \<lfloor>q\<rfloor> else \<lfloor>q\<rfloor> + 1)"

definition nearest :: "real \<Rightarrow> real" where
  "nearest x = of_int (rne (x / 2 powi expo x)) * 2 powi expo x"

text \<open>
  Rounding of an exact result \<open>x\<close>: overflow gives the infinity of the sign of \<open>x\<close>,
  underflow the zero of the sign of \<open>x\<close>.
\<close>

definition rnd :: "real \<Rightarrow> jsnum" where
  "rnd x =
     (if 2 ^ 1024 \<le> \<bar>nearest x\<bar> then (if 0 < x then PInf else NInf)
      else if nearest x = 0 then (if x < 0 then NegZero else Fin 0)
      else Fin (nearest x))"

text \<open>The sign bit, the two zeros, the two infinities, the value of a finite number.\<close>

fun negative :: "jsnum \<Rightarrow> bool" where
  "negative (Fin a) = (a < 0)"
| "negative NegZero = True"
| "negative NInf = True"
| "negative x = False"

fun is_zero :: "jsnum \<Rightarrow> bool" where
  "is_zero (Fin a) = (a = 0)"
| "is_zero NegZero = True"
| "is_zero x = False"

fun is_inf :: "jsnum \<Rightarrow> bool" where
  "is_inf PInf = True"
| "is_inf NInf = True"
| "is_inf x = False"

fun num :: "jsnum \<Rightarrow> real" where
  "num (Fin a) = a"
| "num x = 0"

definition zero_of :: "bool \<Rightarrow> jsnum" where
  "zero_of neg = (if neg then NegZero else Fin 0)"

definition inf_of :: "bool \<Rightarrow> jsnum" where
  "inf_of neg = (if neg then NInf else PInf)"

text \<open>\<^verbatim>\<open>x - y\<close>. An exact difference of zero is \<open>+0\<close>, but \<open>-0 - +0\<close> is \<open>-0\<close>.\<close>

fun js_sub :: "jsnum \<Rightarrow> jsnum \<Rightarrow> jsnum" where
  "js_sub NaN y = NaN"
| "js_sub x NaN = NaN"
| "js_sub PInf PInf = NaN"
| "js_sub NInf NInf = NaN"
| "js_sub PInf y = PInf"
| "js_sub NInf y = NInf"
| "js_sub x PInf = NInf"
| "js_sub x NInf = PInf"
| "js_sub NegZero NegZero = Fin 0"
| "js_sub NegZero (Fin b) = (if b = 0 then NegZero else rnd (- b))"
| "js_sub (Fin a) NegZero = rnd a"
| "js_sub (Fin a) (Fin b) = (if a = b then Fin 0 else rnd (a - b))"

text \<open>
  \<^verbatim>\<open>x / y\<close>. The sign of the result is negative when the signs of the operands
  differ; a non-zero number over a zero is an infinity.
\<close>

definition js_div :: "jsnum \<Rightarrow> jsnum \<Rightarrow> jsnum" where
  "js_div x y =
     (if x = NaN \<or> y = NaN then NaN
      else if (is_zero x \<and> is_zero y) \<or> (is_inf x \<and> is_inf y) then NaN
      else if is_inf x \<or> is_zero y then inf_of (negative x \<noteq> negative y)
      else if is_zero x \<or> is_inf y then zero_of (negative x \<noteq> negative y)
      else rnd (num x / num y))"

text \<open>
  Truncation towards zero, and \<^verbatim>\<open>x % y\<close>: the remainder takes the sign of the
  dividend, and is exact (it needs no rounding).
\<close>

definition trunc :: "real \<Rightarrow> int" where
  "trunc x = (if 0 \<le> x then \<lfloor>x\<rfloor> else \<lceil>x\<rceil>)"

definition fmod :: "real \<Rightarrow> real \<Rightarrow> real" where
  "fmod n d = n - d * of_int (trunc (n / d))"

definition js_rem :: "jsnum \<Rightarrow> jsnum \<Rightarrow> jsnum" where
  "js_rem x y =
     (if x = NaN \<or> y = NaN \<or> is_inf x \<or> is_zero y then NaN
      else if is_inf y \<or> is_zero x then x
      else if fmod (num x) (num y) = 0 then zero_of (negative x)
      else Fin (fmod (num x) (num y)))"

text \<open>\<^verbatim>\<open>x > y\<close>: false when an operand is NaN; the two zeros are equal.\<close>

fun js_gt :: "jsnum \<Rightarrow> jsnum \<Rightarrow> bool" where
  "js_gt NaN y = False"
| "js_gt x NaN = False"
| "js_gt PInf PInf = False"
| "js_gt PInf y = True"
| "js_gt x PInf = False"
| "js_gt NInf y = False"
| "js_gt x NInf = True"
| "js_gt x y = (num y < num x)"

text \<open>
  \<^verbatim>\<open>Date.now()\<close> is a whole number of milliseconds; a time value is at most
  8.64e15 in magnitude, which is below \<open>2\<^sup>5\<^sup>3\<close>. \<open>epochTime\<close> says that a reading is a
  time value not before 1970.
\<close>

definition ms :: "int \<Rightarrow> jsnum" where
  "ms t = Fin (of_int t)"

definition epochTime :: "int \<Rightarrow> bool" where
  "epochTime t \<longleftrightarrow> 0 \<le> t \<and> t \<le> 8640000000000000"

section \<open>The host: animation frames, the callback's world\<close>

text \<open>
  A thrown JavaScript value. \<^verbatim>\<open>drawCall\<close> is an opaque procedure: it acts on a world
  of its own (the GPU device, the canvas, \<^verbatim>\<open>step\<close>) and either returns or throws. It
  neither reads nor writes the fields of the scheduler, as the callbacks of
  \<^verbatim>\<open>CGoL.ts\<close> and \<^verbatim>\<open>App.svelte\<close> (arrow functions around \<^verbatim>\<open>updateGrid\<close>) do not.
\<close>

datatype exn = Thrown string

type_synonym 'w callback = "'w \<Rightarrow> (exn + unit) \<times> 'w"

text \<open>
  What \<^verbatim>\<open>runLoop\<close> does to its environment, in order of occurrence:
  \<^verbatim>\<open>requestAnimationFrame(() => this.runLoop())\<close> and \<^verbatim>\<open>this.drawCall()\<close>.
\<close>

datatype event = RequestFrame | Draw

record 'w host =
  rafQueue :: nat
  world :: 'w
  trace :: "event list"

definition requestAnimationFrame :: "'w host \<Rightarrow> 'w host" where
  "requestAnimationFrame h =
     h\<lparr>rafQueue := Suc (rafQueue h), trace := trace h @ [RequestFrame]\<rparr>"

definition invoke :: "'w callback \<Rightarrow> 'w host \<Rightarrow> (exn + unit) \<times> 'w host" where
  "invoke f h =
     (case f (world h) of
        (r, w) \<Rightarrow> (r, h\<lparr>world := w, trace := trace h @ [Draw]\<rparr>))"

definition calls :: "'w host \<Rightarrow> nat" where
  "calls h = length (filter (\<lambda>e. e = Draw) (trace h))"

section \<open>GameLoop\<close>

record 'w GameLoop =
  fps :: jsnum
  fpsInterval :: jsnum
  drawCall :: "'w callback"
  timeOffset :: jsnum
  frameOffset :: jsnum
  time :: jsnum
  timeInFrame :: jsnum
  timeDelta :: jsnum

text \<open>
  \<^verbatim>\<open>new GameLoop(fps, drawCall)\<close>; \<open>clock\<close> is what \<^verbatim>\<open>Date.now()\<close> returns. The
  constructor has no \<^verbatim>\<open>throw\<close>: every call returns the object.
\<close>

definition GameLoop_constructor ::
  "jsnum \<Rightarrow> 'w callback \<Rightarrow> int \<Rightarrow> exn + 'w GameLoop" where
  "GameLoop_constructor fps0 drawCall0 clock =
     Inr \<lparr>fps = fps0,
          fpsInterval = js_div (Fin 1000) fps0,
          drawCall = drawCall0,
          timeOffset = ms clock,
          frameOffset = Fin 0,
          time = Fin 0,
          timeInFrame = Fin 0,
          timeDelta = Fin 0\<rparr>"

text \<open>
  \<^verbatim>\<open>runLoop()\<close>; \<open>clock\<close> is what \<^verbatim>\<open>Date.now()\<close> returns on this tick. The result
  is \<open>Inl e\<close> when \<^verbatim>\<open>drawCall\<close> throws \<open>e\<close>: there is no \<^verbatim>\<open>try\<close> in the method.
\<close>

definition runLoop ::
  "int \<Rightarrow> 'w GameLoop \<Rightarrow> 'w host \<Rightarrow> (exn + unit) \<times> 'w GameLoop \<times> 'w host" where
  "runLoop clock g h =
     (let h1 = requestAnimationFrame h;
          now = ms clock;
          newTime = js_sub now (timeOffset g);
          g1 = g\<lparr>timeDelta := js_sub newTime (time g)\<rparr>;
          g2 = g1\<lparr>time := newTime\<rparr>;
          g3 = g2\<lparr>timeInFrame := js_sub now (frameOffset g2)\<rparr>
      in if js_gt (timeInFrame g3) (fpsInterval g3) then
           (let g4 = g3\<lparr>frameOffset :=
                         js_sub now (js_rem (timeInFrame g3) (fpsInterval g3))\<rparr>
            in case invoke (drawCall g4) h1 of (r, h2) \<Rightarrow> (r, g4, h2))
         else (Inr (), g3, h1))"

text \<open>A scripted sequence of ticks, one per clock reading, whatever each one returns.\<close>

fun ticks :: "int list \<Rightarrow> 'w GameLoop \<times> 'w host \<Rightarrow> 'w GameLoop \<times> 'w host" where
  "ticks [] s = s"
| "ticks (t # ts) s = ticks ts (snd (runLoop t (fst s) (snd s)))"

text \<open>
  The browser's side of \<^verbatim>\<open>requestAnimationFrame\<close>: a registration is served once,
  at the next frame; with none pending nothing runs any more. An exception that leaves
  the served callback is reported and changes nothing else.
\<close>

definition animationFrame ::
  "int \<Rightarrow> 'w GameLoop \<times> 'w host \<Rightarrow> ((exn + unit) \<times> 'w GameLoop \<times> 'w host) option" where
  "animationFrame clock s =
     (if rafQueue (snd s) = 0 then None
      else Some (runLoop clock (fst s) ((snd s)\<lparr>rafQueue := rafQueue (snd s) - 1\<rparr>)))"

text \<open>The three components of what a tick returns.\<close>

abbreviation result_of :: "'r \<times> 'g \<times> 'h \<Rightarrow> 'r" where
  "result_of x \<equiv> fst x"

abbreviation loop_of :: "'r \<times> 'g \<times> 'h \<Rightarrow> 'g" where
  "loop_of x \<equiv> fst (snd x)"

abbreviation host_of :: "'r \<times> 'g \<times> 'h \<Rightarrow> 'h" where
  "host_of x \<equiv> snd (snd x)"

text \<open>The states after each tick of a scripted sequence, in order.\<close>

fun history ::
  "int list \<Rightarrow> 'w GameLoop \<times> 'w host \<Rightarrow> ('w GameLoop \<times> 'w host) list" where
  "history [] s = []"
| "history (t # ts) s =
     snd (runLoop t (fst s) (snd s)) # history ts (snd (runLoop t (fst s) (snd s)))"

section \<open>Vocabulary of the properties\<close>

text \<open>
  The condition of the \<^verbatim>\<open>if\<close> in \<^verbatim>\<open>runLoop\<close>, read on the state before the tick:
  \<^verbatim>\<open>timeInFrame\<close> has just been assigned \<^verbatim>\<open>now - this.frameOffset\<close>.
\<close>

definition gate :: "int \<Rightarrow> 'w GameLoop \<Rightarrow> bool" where
  "gate clock g = js_gt (js_sub (ms clock) (frameOffset g)) (fpsInterval g)"

text \<open>
  JavaScript's \<^verbatim>\<open><=\<close>, to say that a sequence of numbers does not decrease.
\<close>

fun js_le :: "jsnum \<Rightarrow> jsnum \<Rightarrow> bool" where
  "js_le NaN y = False"
| "js_le x NaN = False"
| "js_le NInf y = True"
| "js_le x PInf = True"
| "js_le PInf y = False"
| "js_le x NInf = False"
| "js_le x y = (num x \<le> num y)"

subsection \<open>Fixtures\<close>

text \<open>
  A callback that counts its own invocations, one that throws on every invocation, a
  host with nothing pending, and the clock readings of a 60 Hz display that starts at
  \<open>origin\<close>: frame \<open>i\<close> at \<open>origin + \<lfloor>i * 1000 / 60\<rfloor>\<close> ms, that is \<open>origin\<close> plus 0, 16,
  33, 50, ...
\<close>

definition tally :: "nat callback" where
  "tally n = (Inr (), Suc n)"

definition failing :: "nat callback" where
  "failing n = (Inl (Thrown ''draw failed''), Suc n)"

definition host0 :: "nat host" where
  "host0 = \<lparr>rafQueue = 0, world = 0, trace = []\<rparr>"

definition frameTimes :: "int \<Rightarrow> nat \<Rightarrow> int list" where
  "frameTimes origin n = map (\<lambda>i. origin + (int i * 1000) div 60) [0..<n]"

section \<open>Rounding\<close>

text \<open>
  \<open>ilog2\<close> is the binary logarithm rounded down, and \<open>nearest x\<close> is within half a unit
  in the last place of \<open>x\<close>.
\<close>

lemma ilog2_bounds:
  assumes "0 < x"
  shows "2 powi ilog2 x \<le> x \<and> x < 2 powi (ilog2 x + 1)"
proof (cases "1 \<le> x")
  case True
  then have n: "0 < \<lfloor>x\<rfloor>" by simp
  from bitlen_bounds [OF n] have
    lo: "2 ^ nat (bitlen \<lfloor>x\<rfloor> - 1) \<le> \<lfloor>x\<rfloor>" and hi: "\<lfloor>x\<rfloor> < 2 ^ nat (bitlen \<lfloor>x\<rfloor>)"
    by simp_all
  from n have b: "1 \<le> bitlen \<lfloor>x\<rfloor>"
    by (simp add: bitlen_alt_def)
  from lo have "(2 :: real) ^ nat (bitlen \<lfloor>x\<rfloor> - 1) \<le> of_int \<lfloor>x\<rfloor>"
    by (metis of_int_le_iff of_int_numeral of_int_power)
  also have "\<dots> \<le> x" by simp
  finally have l: "(2 :: real) ^ nat (bitlen \<lfloor>x\<rfloor> - 1) \<le> x" .
  from hi have "\<lfloor>x\<rfloor> + 1 \<le> 2 ^ nat (bitlen \<lfloor>x\<rfloor>)" by simp
  then have "of_int (\<lfloor>x\<rfloor> + 1) \<le> (2 :: real) ^ nat (bitlen \<lfloor>x\<rfloor>)"
    by (metis of_int_le_iff of_int_numeral of_int_power)
  moreover have "x < of_int (\<lfloor>x\<rfloor> + 1)" by linarith
  ultimately have u: "x < (2 :: real) ^ nat (bitlen \<lfloor>x\<rfloor>)" by linarith
  from b have "(2 :: real) powi (bitlen \<lfloor>x\<rfloor> - 1) = 2 ^ nat (bitlen \<lfloor>x\<rfloor> - 1)"
    and "(2 :: real) powi (bitlen \<lfloor>x\<rfloor> - 1 + 1) = 2 ^ nat (bitlen \<lfloor>x\<rfloor>)"
    by (simp_all add: power_int_def)
  with l u True show ?thesis by (simp add: ilog2_def)
next
  case False
  with assms have y: "1 < 1 / x" by simp
  define c where "c = \<lceil>1 / x\<rceil> - 1"
  from y have c: "0 < c" unfolding c_def by linarith
  have c1: "of_int c < 1 / x" and c2: "1 / x \<le> of_int c + 1"
    unfolding c_def by linarith+
  from bitlen_bounds [OF c] have
    lo: "2 ^ nat (bitlen c - 1) \<le> c" and hi: "c < 2 ^ nat (bitlen c)"
    by simp_all
  from c have b: "1 \<le> bitlen c" by (simp add: bitlen_alt_def)
  from hi have "c + 1 \<le> 2 ^ nat (bitlen c)" by simp
  then have "of_int (c + 1) \<le> (2 :: real) ^ nat (bitlen c)"
    by (metis of_int_le_iff of_int_numeral of_int_power)
  with c2 have "1 / x \<le> (2 :: real) ^ nat (bitlen c)" by simp
  with assms have l: "1 / 2 ^ nat (bitlen c) \<le> x"
    by (simp add: field_simps)
  from lo have "(2 :: real) ^ nat (bitlen c - 1) \<le> of_int c"
    by (metis of_int_le_iff of_int_numeral of_int_power)
  from this c1 have "(2 :: real) ^ nat (bitlen c - 1) < 1 / x"
    by (rule le_less_trans)
  with assms have u: "x < 1 / 2 ^ nat (bitlen c - 1)"
    by (simp add: field_simps)
  from b have "(2 :: real) powi (- bitlen c) = 1 / 2 ^ nat (bitlen c)"
    and "(2 :: real) powi (- bitlen c + 1) = 1 / 2 ^ nat (bitlen c - 1)"
    by (simp_all add: power_int_def field_simps nat_diff_distrib)
  with l u False show ?thesis by (simp add: ilog2_def c_def)
qed

lemma rne_error: "\<bar>of_int (rne q) - q\<bar> \<le> 1 / 2"
  unfolding rne_def by (auto simp: abs_le_iff)

lemma nearest_error: "\<bar>nearest x - x\<bar> \<le> 2 powi expo x / 2"
proof -
  have p: "(0 :: real) < 2 powi expo x" by simp
  have "nearest x - x = (of_int (rne (x / 2 powi expo x)) - x / 2 powi expo x) * 2 powi expo x"
    by (simp add: nearest_def algebra_simps)
  then have "\<bar>nearest x - x\<bar> = \<bar>of_int (rne (x / 2 powi expo x)) - x / 2 powi expo x\<bar> * 2 powi expo x"
    by (simp add: abs_mult)
  also have "\<dots> \<le> 1 / 2 * 2 powi expo x"
    using rne_error [of "x / 2 powi expo x"] p by (intro mult_right_mono) simp_all
  finally show ?thesis by simp
qed

text \<open>Whole numbers below \<open>2\<^sup>5\<^sup>3\<close> in magnitude are not rounded.\<close>

lemma rne_of_int: "rne (of_int n) = n"
  by (simp add: rne_def)

lemma ilog2_int_le:
  assumes "0 < n" and "n < 2 ^ 53"
  shows "ilog2 (of_int n) \<le> 52"
proof -
  from assms(1) have "1 \<le> (of_int n :: real)" by simp
  then have e: "ilog2 (of_int n) = bitlen n - 1" by (simp add: ilog2_def)
  from assms have "bitlen n \<le> 53"
    by (simp add: bitlen_le_iff_power)
  with e show ?thesis by simp
qed

lemma nearest_int:
  assumes "\<bar>n\<bar> < 2 ^ 53"
  shows "nearest (of_int n) = of_int n"
proof (cases "n = 0")
  case True
  then show ?thesis by (simp add: nearest_def rne_def)
next
  case False
  with assms have "0 < \<bar>n\<bar>" and "\<bar>n\<bar> < 2 ^ 53" by simp_all
  from ilog2_int_le [OF this] have "expo (of_int n) \<le> 0"
    by (simp add: expo_def)
  then obtain k where k: "expo (of_int n) = - int k"
    by (metis nonpos_int_cases)
  have "of_int n / 2 powi (- int k) = (of_int (n * 2 ^ k) :: real)"
    by (simp add: power_int_minus field_simps)
  then have "rne (of_int n / 2 powi (- int k)) = n * 2 ^ k"
    by (simp only: rne_of_int)
  then show ?thesis
    by (simp add: nearest_def k power_int_minus field_simps)
qed

lemma rnd_int:
  assumes "\<bar>n\<bar> < 2 ^ 53"
  shows "rnd (of_int n) = Fin (of_int n)"
proof -
  have "\<bar>of_int n :: real\<bar> < 2 ^ 53"
    using assms by (metis of_int_abs of_int_less_iff of_int_numeral of_int_power)
  also have "\<dots> < (2 ^ 1024 :: real)" by simp
  finally have "\<not> 2 ^ 1024 \<le> \<bar>of_int n :: real\<bar>" by simp
  then show ?thesis
    by (simp add: rnd_def nearest_int [OF assms])
qed

lemma rnd_numeral:
  "numeral k < (9007199254740992 :: int) \<Longrightarrow> rnd (numeral k) = Fin (numeral k)"
  "numeral k < (9007199254740992 :: int) \<Longrightarrow> rnd (- numeral k) = Fin (- numeral k)"
  using rnd_int [of "numeral k"] rnd_int [of "- numeral k"] by simp_all

lemma js_sub_int:
  assumes "\<bar>a - b\<bar> < 2 ^ 53"
  shows "js_sub (ms a) (ms b) = ms (a - b)"
  using rnd_int [OF assms] by (simp add: ms_def)

lemma fmod_int:
  assumes "0 \<le> a" and "0 < b"
  shows "fmod (of_int a) (of_int b) = of_int (a mod b)"
proof -
  from assms have "0 \<le> (of_int a :: real) / of_int b" by simp
  then have "trunc (of_int a / of_int b) = a div b"
    by (simp add: trunc_def floor_divide_of_int_eq)
  then have "fmod (of_int a) (of_int b) = of_int (a - b * (a div b))"
    by (simp add: fmod_def)
  then show ?thesis
    by (simp add: minus_mult_div_eq_mod)
qed

lemma js_rem_int:
  assumes "0 < a" and "0 < b"
  shows "js_rem (ms a) (ms b) = ms (a mod b)"
proof -
  from assms have "fmod (of_int a) (of_int b) = (of_int (a mod b) :: real)"
    by (simp add: fmod_int)
  with assms show ?thesis
    by (simp add: js_rem_def ms_def zero_of_def)
qed

text \<open>The equations that evaluate a tick at concrete values.\<close>

lemmas tick_defs =
  GameLoop_constructor_def runLoop_def requestAnimationFrame_def invoke_def calls_def
  ms_def js_div_def js_rem_def zero_of_def inf_of_def fmod_def trunc_def rnd_numeral Let_def

lemmas rnd_defs =
  rnd_def nearest_def expo_def ilog2_def rne_def compute_bitlen power_int_minus

section \<open>One tick\<close>

lemma runLoop_loop:
  "loop_of (runLoop t g h) =
     (let g3 = g\<lparr>timeDelta := js_sub (js_sub (ms t) (timeOffset g)) (time g),
                  time := js_sub (ms t) (timeOffset g),
                  timeInFrame := js_sub (ms t) (frameOffset g)\<rparr>
      in if gate t g
         then g3\<lparr>frameOffset :=
                   js_sub (ms t) (js_rem (js_sub (ms t) (frameOffset g)) (fpsInterval g))\<rparr>
         else g3)"
  by (simp add: runLoop_def gate_def Let_def split: prod.split)

lemma runLoop_host:
  "host_of (runLoop t g h) =
     (if gate t g then snd (invoke (drawCall g) (requestAnimationFrame h))
      else requestAnimationFrame h)"
  by (simp add: runLoop_def gate_def Let_def split: prod.split)

lemma runLoop_result:
  "result_of (runLoop t g h) =
     (if gate t g then fst (drawCall g (world h)) else Inr ())"
  by (simp add: runLoop_def gate_def Let_def invoke_def requestAnimationFrame_def
      split: prod.split)

lemma runLoop_trace:
  "trace (host_of (runLoop t g h)) =
     trace h @ RequestFrame # (if gate t g then [Draw] else [])"
  by (simp add: runLoop_host invoke_def requestAnimationFrame_def split: prod.split)

lemma runLoop_calls:
  "calls (host_of (runLoop t g h)) = calls h + (if gate t g then 1 else 0)"
  by (simp add: calls_def runLoop_trace)

lemma runLoop_rafQueue:
  "rafQueue (host_of (runLoop t g h)) = Suc (rafQueue h)"
  by (simp add: runLoop_host invoke_def requestAnimationFrame_def split: prod.split)

lemma runLoop_world:
  "world (host_of (runLoop t g h)) =
     (if gate t g then snd (drawCall g (world h)) else world h)"
  by (simp add: runLoop_host invoke_def requestAnimationFrame_def split: prod.split)

section \<open>What every tick preserves\<close>

lemma runLoop_keeps:
  "fpsInterval (loop_of (runLoop t g h)) = fpsInterval g"
  "drawCall (loop_of (runLoop t g h)) = drawCall g"
  "fps (loop_of (runLoop t g h)) = fps g"
  "timeOffset (loop_of (runLoop t g h)) = timeOffset g"
  by (simp_all add: runLoop_loop Let_def)

lemma ticks_keeps:
  "fpsInterval (fst (ticks ts s)) = fpsInterval (fst s)"
  "drawCall (fst (ticks ts s)) = drawCall (fst s)"
  by (induction ts arbitrary: s) (simp_all add: runLoop_keeps)

section \<open>The rate gate\<close>

text \<open>
  C1 (gate correctness). Take a scheduler built with any target rate \<open>R\<close> and ticked any
  number of times. Its interval is still \<^verbatim>\<open>1000 / R\<close> and its callback the one it was
  built with. A further tick at clock reading \<open>t\<close> invokes the callback exactly when
  \<^verbatim>\<open>t - frameOffset\<close> is strictly greater than \<^verbatim>\<open>1000 / R\<close>, both as JavaScript computes
  them: then the trace has one more \<open>Draw\<close>, the callback has acted once on its world,
  and the tick ends as the callback ended. On every other tick the number of
  invocations and the world stay as they were and the tick returns normally.
\<close>

theorem gate_correctness:
  assumes "GameLoop_constructor R cb c0 = Inr g0"
    and "ticks ts (g0, h0) = (g, h)"
  shows "fpsInterval g = js_div (Fin 1000) R \<and> drawCall g = cb \<and>
         (calls (host_of (runLoop t g h)) = calls h + 1) =
           js_gt (js_sub (ms t) (frameOffset g)) (js_div (Fin 1000) R) \<and>
         (calls (host_of (runLoop t g h)) = calls h) =
           (\<not> js_gt (js_sub (ms t) (frameOffset g)) (js_div (Fin 1000) R)) \<and>
         world (host_of (runLoop t g h)) =
           (if js_gt (js_sub (ms t) (frameOffset g)) (js_div (Fin 1000) R)
            then snd (cb (world h)) else world h) \<and>
         result_of (runLoop t g h) =
           (if js_gt (js_sub (ms t) (frameOffset g)) (js_div (Fin 1000) R)
            then fst (cb (world h)) else Inr ())"
proof -
  from assms(1) have "fpsInterval g0 = js_div (Fin 1000) R" and "drawCall g0 = cb"
    by (auto simp: GameLoop_constructor_def)
  with ticks_keeps [of ts "(g0, h0)"] assms(2)
  have iv: "fpsInterval g = js_div (Fin 1000) R" and cb: "drawCall g = cb"
    by simp_all
  then have "gate t g = js_gt (js_sub (ms t) (frameOffset g)) (js_div (Fin 1000) R)"
    by (simp add: gate_def)
  with iv cb show ?thesis
    by (simp add: runLoop_calls runLoop_world runLoop_result)
qed

text \<open>
  At 5 Hz, built at clock 0 and ticked at 0, 16, ..., 183: the tick at 200 does not
  invoke the callback (200 is not greater than 200), and after it the tick at 216 does.
  At 60 Hz the interval is the rounded 16.666666666666668; after the ticks at 0, 16, 33
  and 50 the callback has run twice and the boundary is at 33.33333333333334, so that
  the tick at 66 invokes it a third time.
\<close>

theorem gate_correctness_witness:
  "world (host_of (runLoop 200
      (fst (ticks (frameTimes 0 12) ((projr (GameLoop_constructor (Fin 5) tally 0)), host0)))
      (snd (ticks (frameTimes 0 12) ((projr (GameLoop_constructor (Fin 5) tally 0)), host0))))) = 0 \<and>
   world (host_of (runLoop 216
      (fst (ticks (frameTimes 0 13) ((projr (GameLoop_constructor (Fin 5) tally 0)), host0)))
      (snd (ticks (frameTimes 0 13) ((projr (GameLoop_constructor (Fin 5) tally 0)), host0))))) = 1 \<and>
   fpsInterval (fst (ticks [0, 16, 33, 50] ((projr (GameLoop_constructor (Fin 60) tally 0)), host0))) =
     Fin (4691249611844267 / 281474976710656) \<and>
   frameOffset (fst (ticks [0, 16, 33, 50] ((projr (GameLoop_constructor (Fin 60) tally 0)), host0))) =
     Fin (1172812402961067 / 35184372088832) \<and>
   world (snd (ticks [0, 16, 33, 50] ((projr (GameLoop_constructor (Fin 60) tally 0)), host0))) = 2 \<and>
   world (host_of (runLoop 66
      (fst (ticks [0, 16, 33, 50] ((projr (GameLoop_constructor (Fin 60) tally 0)), host0)))
      (snd (ticks [0, 16, 33, 50] ((projr (GameLoop_constructor (Fin 60) tally 0)), host0))))) = 3"
proof -
  have c5: "GameLoop_constructor (Fin 5) tally 0 = Inr (projr (GameLoop_constructor (Fin 5) tally 0))"
    and c60: "GameLoop_constructor (Fin 60) tally 0 = Inr (projr (GameLoop_constructor (Fin 60) tally 0))"
    by (simp_all add: GameLoop_constructor_def)
  have d5: "js_div (Fin 1000) (Fin 5) = Fin 200"
    by (simp add: js_div_def rnd_numeral)
  have d60: "js_div (Fin 1000) (Fin 60) = Fin (4691249611844267 / 281474976710656)"
    by (simp add: js_div_def rnd_defs)
  have a: "frameOffset (fst (ticks (frameTimes 0 12) ((projr (GameLoop_constructor (Fin 5) tally 0)), host0))) = Fin 0"
    "world (snd (ticks (frameTimes 0 12) ((projr (GameLoop_constructor (Fin 5) tally 0)), host0))) = 0"
    "frameOffset (fst (ticks (frameTimes 0 13) ((projr (GameLoop_constructor (Fin 5) tally 0)), host0))) = Fin 0"
    "world (snd (ticks (frameTimes 0 13) ((projr (GameLoop_constructor (Fin 5) tally 0)), host0))) = 0"
    by (simp_all add: tick_defs tally_def host0_def frameTimes_def upt_rec)
  have b: "frameOffset (fst (ticks [0, 16, 33, 50] ((projr (GameLoop_constructor (Fin 60) tally 0)), host0))) =
      Fin (1172812402961067 / 35184372088832)"
    "world (snd (ticks [0, 16, 33, 50] ((projr (GameLoop_constructor (Fin 60) tally 0)), host0))) = 2"
    by (simp_all add: tick_defs rnd_defs tally_def host0_def)
  have g: "\<not> js_gt (js_sub (ms 200) (Fin 0)) (Fin 200)"
    "js_gt (js_sub (ms 216) (Fin 0)) (Fin 200)"
    "js_gt (js_sub (ms 66) (Fin (1172812402961067 / 35184372088832)))
       (Fin (4691249611844267 / 281474976710656))"
    by (simp_all add: ms_def rnd_numeral rnd_defs)
  from gate_correctness [OF c5 prod.collapse [symmetric], of "frameTimes 0 12" host0 200]
    gate_correctness [OF c5 prod.collapse [symmetric], of "frameTimes 0 13" host0 216]
    gate_correctness [OF c60 prod.collapse [symmetric], of "[0, 16, 33, 50]" host0 66]
    a b g d5 d60
  show ?thesis by (simp add: tally_def)
qed

section \<open>Resynchronisation of the frame boundary\<close>

text \<open>
  At 7 Hz the interval is the rounded 142.85714285714286. Built at clock 0, a first tick
  at 1000 fires and leaves the boundary at 857.1428571428571: the clock is then more than
  one interval past the boundary (the gate is open again at the same reading), and the
  boundary has advanced by more than 5 and less than 6 intervals.
\<close>

theorem resync_bounds_fail_at_7hz:
  "fpsInterval (projr (GameLoop_constructor (Fin 7) tally 0)) = Fin (5026338869833143 / 35184372088832) \<and>
   frameOffset (projr (GameLoop_constructor (Fin 7) tally 0)) = Fin 0 \<and>
   world (host_of (runLoop 1000 (projr (GameLoop_constructor (Fin 7) tally 0)) host0)) = 1 \<and>
   frameOffset (loop_of (runLoop 1000 (projr (GameLoop_constructor (Fin 7) tally 0)) host0)) = Fin (3769754152374857 / 4398046511104) \<and>
   \<not> (1000 - 3769754152374857 / 4398046511104 < (5026338869833143 / 35184372088832 :: real)) \<and>
   js_gt (js_sub (ms 1000) (frameOffset (loop_of (runLoop 1000 (projr (GameLoop_constructor (Fin 7) tally 0)) host0))))
     (fpsInterval (loop_of (runLoop 1000 (projr (GameLoop_constructor (Fin 7) tally 0)) host0))) \<and>
   5 * (5026338869833143 / 35184372088832 :: real) < 3769754152374857 / 4398046511104 - 0 \<and>
   3769754152374857 / 4398046511104 - 0 < 6 * (5026338869833143 / 35184372088832 :: real)"
  by (simp add: tick_defs rnd_defs tally_def host0_def)

lemma fmod_pos:
  assumes "0 < d" and "0 \<le> n"
  shows "0 \<le> fmod n d" and "fmod n d < d" and "fmod n d = n - d * of_int \<lfloor>n / d\<rfloor>"
proof -
  from assms have q: "0 \<le> n / d" by simp
  then show e: "fmod n d = n - d * of_int \<lfloor>n / d\<rfloor>"
    by (simp add: fmod_def trunc_def)
  from floor_divide_lower [OF assms(1), of n] show "0 \<le> fmod n d"
    unfolding e by (simp add: mult.commute)
  from floor_divide_upper [OF assms(1), of n] show "fmod n d < d"
    unfolding e by (simp add: algebra_simps)
qed

lemma residual_exact:
  assumes "0 < i" and "i < d"
  shows "js_rem (Fin d) (Fin i) = Fin (fmod d i)"
    and "0 \<le> fmod d i" and "fmod d i < i"
    and "\<exists>k::nat. 0 < k \<and> d - fmod d i = of_nat k * i"
proof -
  from assms have nn: "0 \<le> d" and nz: "d \<noteq> 0" "i \<noteq> 0" by simp_all
  note m = fmod_pos [OF assms(1) nn]
  from nz nn show "js_rem (Fin d) (Fin i) = Fin (fmod d i)"
    by (simp add: js_rem_def zero_of_def)
  from m show "0 \<le> fmod d i" and "fmod d i < i" by simp_all
  have "1 < d / i" using assms by simp
  then have "1 \<le> \<lfloor>d / i\<rfloor>" by linarith
  then have k: "0 < nat \<lfloor>d / i\<rfloor>" and
    e: "of_nat (nat \<lfloor>d / i\<rfloor>) = (of_int \<lfloor>d / i\<rfloor> :: real)"
    by simp_all
  have "d - fmod d i = of_nat (nat \<lfloor>d / i\<rfloor>) * i"
    unfolding e m(3) by (simp add: algebra_simps)
  with k show "\<exists>k::nat. 0 < k \<and> d - fmod d i = of_nat k * i" by blast
qed

lemma resync_whole:
  assumes i: "fpsInterval g = ms i" and p: "0 < i"
    and f: "frameOffset g = ms fo" and ef: "epochTime fo" and et: "epochTime t"
    and g: "gate t g"
  shows "\<exists>fo'. frameOffset (loop_of (runLoop t g h)) = ms fo' \<and> epochTime fo' \<and>
            fo' = t - (t - fo) mod i \<and> fo' \<le> t \<and> t - fo' < i \<and> fo < fo' \<and>
            (\<exists>k. 0 < k \<and> fo' - fo = k * i)"
proof -
  from g have eq: "frameOffset (loop_of (runLoop t g h)) =
      js_sub (ms t) (js_rem (js_sub (ms t) (frameOffset g)) (fpsInterval g))"
    by (simp add: runLoop_loop Let_def)
  from ef et have r1: "\<bar>t - fo\<bar> < 2 ^ 53"
    by (simp add: epochTime_def abs_less_iff)
  then have s1: "js_sub (ms t) (ms fo) = ms (t - fo)"
    by (rule js_sub_int)
  with g i f have lt: "i < t - fo"
    by (simp add: gate_def ms_def)
  with p have pos: "0 < t - fo" by simp
  have s2: "js_rem (ms (t - fo)) (ms i) = ms ((t - fo) mod i)"
    using pos p by (rule js_rem_int)
  have m0: "0 \<le> (t - fo) mod i" and m1: "(t - fo) mod i < i"
    using p by simp_all
  have m2: "(t - fo) mod i \<le> t - fo"
    using pos p by (simp add: zmod_le_nonneg_dividend)
  from m0 m2 ef et have r2: "\<bar>t - (t - fo) mod i\<bar> < 2 ^ 53"
    by (simp add: epochTime_def abs_less_iff)
  then have s3: "js_sub (ms t) (ms ((t - fo) mod i)) = ms (t - (t - fo) mod i)"
    by (rule js_sub_int)
  from eq i f s1 s2 s3
  have v: "frameOffset (loop_of (runLoop t g h)) = ms (t - (t - fo) mod i)"
    by simp
  from m0 m2 ef et have e: "epochTime (t - (t - fo) mod i)"
    by (simp add: epochTime_def)
  from lt m1 have adv: "fo < t - (t - fo) mod i" by simp
  from lt p have "0 < (t - fo) div i"
    using pos_imp_zdiv_pos_iff [of i "t - fo"] by simp
  moreover have "t - (t - fo) mod i - fo = (t - fo) div i * i"
    by (simp add: algebra_simps minus_mod_eq_mult_div)
  ultimately have k: "\<exists>k. 0 < k \<and> t - (t - fo) mod i - fo = k * i"
    by (intro exI [of _ "(t - fo) div i"]) simp
  from v e m0 m1 adv k show ?thesis by auto
qed

text \<open>
  C2 (drift-free resync), as the code has it. On a tick at \<open>t\<close> that invokes the callback
  the new boundary is \<^verbatim>\<open>t - ((t - frameOffset) % fpsInterval)\<close> as JavaScript computes it.
  With a finite elapsed time \<open>d\<close> (the tick's \<^verbatim>\<open>timeInFrame\<close>) and a finite interval
  \<open>i > 0\<close>, the residual \<^verbatim>\<open>d % i\<close> is exact: it lies in \<open>[0, i)\<close> and \<open>d\<close> minus it is a
  positive whole multiple of \<open>i\<close>; the new boundary is \<open>t\<close> minus that residual, rounded.
  When the interval \<open>n\<close> and the boundary \<open>fo\<close> are whole numbers of milliseconds (and the
  readings are time values since 1970) nothing is rounded: the new boundary is the
  whole number \<open>fo' = t - ((t - fo) mod n)\<close>, with \<open>fo' \<le> t\<close>, \<open>t - fo' < n\<close>, \<open>fo < fo'\<close> and
  \<open>fo' - fo\<close> a positive multiple of \<open>n\<close>; and \<open>fo'\<close> is again such a boundary.
\<close>

theorem drift_free_resync:
  assumes "calls (host_of (runLoop t g h)) = Suc (calls h)"
  shows "frameOffset (loop_of (runLoop t g h)) =
           js_sub (ms t) (js_rem (js_sub (ms t) (frameOffset g)) (fpsInterval g)) \<and>
         (js_sub (ms t) (frameOffset g) = Fin d \<and> fpsInterval g = Fin i \<and> 0 < i \<longrightarrow>
            frameOffset (loop_of (runLoop t g h)) = js_sub (ms t) (Fin (fmod d i)) \<and>
            0 \<le> fmod d i \<and> fmod d i < i \<and>
            (\<exists>k::nat. 0 < k \<and> d - fmod d i = of_nat k * i)) \<and>
         (fpsInterval g = ms n \<and> 0 < n \<and> frameOffset g = ms fo \<and>
          epochTime fo \<and> epochTime t \<longrightarrow>
            (\<exists>fo'. frameOffset (loop_of (runLoop t g h)) = ms fo' \<and> epochTime fo' \<and>
               fo' = t - (t - fo) mod n \<and> fo' \<le> t \<and> t - fo' < n \<and> fo < fo' \<and>
               (\<exists>k. 0 < k \<and> fo' - fo = k * n)))"
proof -
  from assms have g: "gate t g"
    by (simp add: runLoop_calls split: if_splits)
  then have eq: "frameOffset (loop_of (runLoop t g h)) =
      js_sub (ms t) (js_rem (js_sub (ms t) (frameOffset g)) (fpsInterval g))"
    by (simp add: runLoop_loop Let_def)
  have mid: "frameOffset (loop_of (runLoop t g h)) = js_sub (ms t) (Fin (fmod d i)) \<and>
      0 \<le> fmod d i \<and> fmod d i < i \<and> (\<exists>k::nat. 0 < k \<and> d - fmod d i = of_nat k * i)"
    if a: "js_sub (ms t) (frameOffset g) = Fin d" and b: "fpsInterval g = Fin i" and c: "0 < i"
  proof -
    from g a b have "i < d" by (simp add: gate_def)
    from residual_exact [OF c this] eq a b show ?thesis by simp
  qed
  from eq mid resync_whole [OF _ _ _ _ _ g, of n fo h] show ?thesis
    by blast
qed

text \<open>
  At 5 Hz, built at clock 0, a first tick at 1016 fires and moves the boundary from 0
  to 1000: five intervals, with the residual 16 kept. At 7 Hz a first tick at 1000
  fires with the residual 142.85714285714283, six intervals below 1000.
\<close>

theorem drift_free_resync_witness:
  "calls (host_of (runLoop 1016 (projr (GameLoop_constructor (Fin 5) tally 0)) host0)) = Suc (calls host0) \<and>
   fpsInterval (projr (GameLoop_constructor (Fin 5) tally 0)) = ms 200 \<and> (0::int) < 200 \<and> frameOffset (projr (GameLoop_constructor (Fin 5) tally 0)) = ms 0 \<and>
   epochTime 0 \<and> epochTime 1016 \<and>
   frameOffset (loop_of (runLoop 1016 (projr (GameLoop_constructor (Fin 5) tally 0)) host0)) = Fin 1000 \<and>
   (\<exists>k. 0 < k \<and> (1016 - (1016 - 0) mod 200) - 0 = k * (200::int)) \<and>
   calls (host_of (runLoop 1000 (projr (GameLoop_constructor (Fin 7) tally 0)) host0)) = Suc (calls host0) \<and>
   js_sub (ms 1000) (frameOffset (projr (GameLoop_constructor (Fin 7) tally 0))) = Fin 1000 \<and>
   fpsInterval (projr (GameLoop_constructor (Fin 7) tally 0)) = Fin (5026338869833143 / 35184372088832) \<and>
   fmod 1000 (5026338869833143 / 35184372088832) = 2513169434916571 / 17592186044416 \<and>
   frameOffset (loop_of (runLoop 1000 (projr (GameLoop_constructor (Fin 7) tally 0)) host0)) =
     js_sub (ms 1000) (Fin (2513169434916571 / 17592186044416)) \<and>
   1000 - 2513169434916571 / 17592186044416 = 6 * (5026338869833143 / 35184372088832 :: real)"
proof -
  have i: "fpsInterval (projr (GameLoop_constructor (Fin 5) tally 0)) = ms 200" and f: "frameOffset (projr (GameLoop_constructor (Fin 5) tally 0)) = ms 0"
    by (simp_all add: tick_defs)
  have p: "(0::int) < 200" by simp
  have e: "epochTime 0" "epochTime 1016" by (simp_all add: epochTime_def)
  have c: "calls (host_of (runLoop 1016 (projr (GameLoop_constructor (Fin 5) tally 0)) host0)) = Suc (calls host0)"
    by (simp add: tick_defs tally_def host0_def)
  have c7: "calls (host_of (runLoop 1000 (projr (GameLoop_constructor (Fin 7) tally 0)) host0)) = Suc (calls host0)"
    by (simp add: tick_defs rnd_defs tally_def host0_def)
  have d7: "js_sub (ms 1000) (frameOffset (projr (GameLoop_constructor (Fin 7) tally 0))) = Fin 1000"
    and i7: "fpsInterval (projr (GameLoop_constructor (Fin 7) tally 0)) = Fin (5026338869833143 / 35184372088832)"
    by (simp_all add: tick_defs rnd_defs)
  have m7: "fmod 1000 (5026338869833143 / 35184372088832) = 2513169434916571 / 17592186044416"
    by (simp add: fmod_def trunc_def)
  from drift_free_resync [OF c, of 1016 200 200 0]
    drift_free_resync [OF c7, of 1000 "5026338869833143 / 35184372088832" 0 0]
    i p f e c c7 d7 i7 m7
  show ?thesis by (auto simp: ms_def)
qed

section \<open>Construction\<close>

text \<open>
  The constructor validates nothing. With rate 0 it returns a scheduler whose interval
  is \<open>+Infinity\<close>, with rate \<open>-0\<close> one whose interval is \<open>-Infinity\<close>, with rate \<open>-5\<close> one
  whose interval is \<open>-200\<close>; in all three every timing field is initialised.
\<close>

theorem invalid_rate_accepted:
  "GameLoop_constructor (Fin 0) tally 7 =
     Inr \<lparr>fps = Fin 0, fpsInterval = PInf, drawCall = tally, timeOffset = Fin 7,
          frameOffset = Fin 0, time = Fin 0, timeInFrame = Fin 0, timeDelta = Fin 0\<rparr> \<and>
   GameLoop_constructor NegZero tally 7 =
     Inr \<lparr>fps = NegZero, fpsInterval = NInf, drawCall = tally, timeOffset = Fin 7,
          frameOffset = Fin 0, time = Fin 0, timeInFrame = Fin 0, timeDelta = Fin 0\<rparr> \<and>
   GameLoop_constructor (Fin (- 5)) tally 7 =
     Inr \<lparr>fps = Fin (- 5), fpsInterval = Fin (- 200), drawCall = tally, timeOffset = Fin 7,
          frameOffset = Fin 0, time = Fin 0, timeInFrame = Fin 0, timeDelta = Fin 0\<rparr>"
  by (simp add: tick_defs)

text \<open>
  C3 (construction), as the code has it: for every rate, construction succeeds and
  initialises every field: \<open>timeOffset\<close> is the clock reading, \<open>frameOffset\<close>, \<open>time\<close>,
  \<open>timeInFrame\<close> and \<open>timeDelta\<close> are 0, and \<open>fpsInterval\<close> is \<^verbatim>\<open>1000 / fps\<close> as JavaScript
  computes it; for every finite rate \<open>r\<close> other than zero, and so for every \<open>r > 0\<close>,
  that is the quotient \<open>1000 / r\<close> rounded to binary64.
\<close>

theorem construction_never_fails:
  "\<exists>g. GameLoop_constructor R cb c0 = Inr g \<and>
        fps g = R \<and> fpsInterval g = js_div (Fin 1000) R \<and> drawCall g = cb \<and>
        timeOffset g = ms c0 \<and> frameOffset g = Fin 0 \<and> time g = Fin 0 \<and>
        timeInFrame g = Fin 0 \<and> timeDelta g = Fin 0 \<and>
        (\<forall>r. R = Fin r \<longrightarrow> r \<noteq> 0 \<longrightarrow> fpsInterval g = rnd (1000 / r))"
  by (auto simp: GameLoop_constructor_def js_div_def)

text \<open>
  The rate of \<^verbatim>\<open>CGoL.ts\<close>, \<open>1000 / 40 = 25\<close>: the interval is 40 ms. The rate 3: the
  interval is 333.3333333333333.
\<close>

theorem construction_never_fails_witness:
  "(25::real) \<noteq> 0 \<and> (3::real) \<noteq> 0 \<and>
   (\<exists>g. GameLoop_constructor (Fin 25) tally 0 = Inr g \<and> fpsInterval g = Fin 40 \<and>
         timeOffset g = Fin 0 \<and> frameOffset g = Fin 0) \<and>
   (\<exists>g. GameLoop_constructor (Fin 3) tally 0 = Inr g \<and>
         fpsInterval g = Fin (5864062014805333 / 17592186044416))"
proof -
  have a: "rnd (1000 / 25) = Fin 40" by (simp add: rnd_numeral)
  have b: "rnd (1000 / 3) = Fin (5864062014805333 / 17592186044416)"
    by (simp add: rnd_defs)
  from construction_never_fails [of "Fin 25" tally 0]
    construction_never_fails [of "Fin 3" tally 0] a b
  show ?thesis by (auto simp: ms_def)
qed

section \<open>One invocation per tick\<close>

text \<open>
  C4 (at most one fire per tick). A tick never adds more than one invocation of the
  callback; when the gate passes it adds exactly one, and the callback has acted on
  its world exactly once. In particular, when the time since the boundary, as the tick
  computes it, is more than three times a positive interval, the tick invokes the
  callback once: the intervals that were missed are not made up for.
\<close>

theorem at_most_one_fire:
  "calls (host_of (runLoop t g h)) \<le> calls h + 1 \<and>
   (gate t g \<longrightarrow>
      calls (host_of (runLoop t g h)) = calls h + 1 \<and>
      world (host_of (runLoop t g h)) = snd (drawCall g (world h))) \<and>
   (js_sub (ms t) (frameOffset g) = Fin d \<and> fpsInterval g = Fin i \<and> 0 < i \<and> 3 * i < d \<longrightarrow>
      calls (host_of (runLoop t g h)) = calls h + 1 \<and>
      world (host_of (runLoop t g h)) = snd (drawCall g (world h)))"
proof -
  have "gate t g"
    if "js_sub (ms t) (frameOffset g) = Fin d" and "fpsInterval g = Fin i"
      and "0 < i" and "3 * i < d"
    using that by (simp add: gate_def)
  then show ?thesis
    by (auto simp: runLoop_calls runLoop_world)
qed

text \<open>
  At 5 Hz with the boundary at 0, a tick at 1016 ms (five intervals late) invokes the
  callback once.
\<close>

theorem at_most_one_fire_witness:
  "js_sub (ms 1016) (frameOffset (projr (GameLoop_constructor (Fin 5) tally 0))) = Fin 1016 \<and>
   fpsInterval (projr (GameLoop_constructor (Fin 5) tally 0)) = Fin 200 \<and>
   (0::real) < 200 \<and> 3 * (200::real) < 1016 \<and>
   gate 1016 (projr (GameLoop_constructor (Fin 5) tally 0)) \<and>
   calls (host_of (runLoop 1016 (projr (GameLoop_constructor (Fin 5) tally 0)) host0)) = 1 \<and>
   world (host_of (runLoop 1016 (projr (GameLoop_constructor (Fin 5) tally 0)) host0)) = 1"
proof -
  have a: "js_sub (ms 1016) (frameOffset (projr (GameLoop_constructor (Fin 5) tally 0))) = Fin 1016"
    and b: "fpsInterval (projr (GameLoop_constructor (Fin 5) tally 0)) = Fin 200"
    and g: "gate 1016 (projr (GameLoop_constructor (Fin 5) tally 0))"
    and d: "drawCall (projr (GameLoop_constructor (Fin 5) tally 0)) = tally"
    by (simp_all add: tick_defs gate_def)
  have k: "calls host0 = 0" and w: "world host0 = 0"
    by (simp_all add: calls_def host0_def)
  from at_most_one_fire [of 1016 "projr (GameLoop_constructor (Fin 5) tally 0)" host0 1016 200] a b g d k w
  show ?thesis by (simp add: tally_def)
qed

section \<open>A tick that does not fire\<close>

text \<open>
  C7 (no-fire frame condition). When the gate does not pass, the tick assigns
  \<open>timeDelta\<close>, \<open>time\<close> and \<open>timeInFrame\<close> and nothing else of the scheduler:
  \<open>frameOffset\<close>, \<open>fps\<close>, \<open>fpsInterval\<close>, \<open>timeOffset\<close> and \<open>drawCall\<close> are as before;
  the callback is not invoked, its world is untouched, and the tick returns normally.
  (The request for the next animation frame is an effect on the host, not on the
  scheduler.)
\<close>

theorem no_fire_frame:
  assumes "\<not> js_gt (js_sub (ms t) (frameOffset g)) (fpsInterval g)"
  shows "loop_of (runLoop t g h) =
           g\<lparr>timeDelta := js_sub (js_sub (ms t) (timeOffset g)) (time g),
             time := js_sub (ms t) (timeOffset g),
             timeInFrame := js_sub (ms t) (frameOffset g)\<rparr> \<and>
         frameOffset (loop_of (runLoop t g h)) = frameOffset g \<and>
         fps (loop_of (runLoop t g h)) = fps g \<and>
         fpsInterval (loop_of (runLoop t g h)) = fpsInterval g \<and>
         timeOffset (loop_of (runLoop t g h)) = timeOffset g \<and>
         drawCall (loop_of (runLoop t g h)) = drawCall g \<and>
         calls (host_of (runLoop t g h)) = calls h \<and>
         world (host_of (runLoop t g h)) = world h \<and>
         result_of (runLoop t g h) = Inr ()"
proof -
  from assms have "\<not> gate t g" by (simp add: gate_def)
  then show ?thesis
    by (simp add: runLoop_loop runLoop_calls runLoop_world runLoop_result Let_def)
qed

text \<open>
  At 5 Hz with the boundary at 0, the tick at 200 ms does not fire.
\<close>

theorem no_fire_frame_witness:
  "\<not> js_gt (js_sub (ms 200) (frameOffset (projr (GameLoop_constructor (Fin 5) tally 0))))
        (fpsInterval (projr (GameLoop_constructor (Fin 5) tally 0))) \<and>
   loop_of (runLoop 200 (projr (GameLoop_constructor (Fin 5) tally 0)) host0) =
     \<lparr>fps = Fin 5, fpsInterval = Fin 200, drawCall = tally, timeOffset = Fin 0,
      frameOffset = Fin 0, time = Fin 200, timeInFrame = Fin 200, timeDelta = Fin 200\<rparr> \<and>
   calls (host_of (runLoop 200 (projr (GameLoop_constructor (Fin 5) tally 0)) host0)) = 0 \<and>
   world (host_of (runLoop 200 (projr (GameLoop_constructor (Fin 5) tally 0)) host0)) = 0"
proof -
  have n: "\<not> js_gt (js_sub (ms 200) (frameOffset (projr (GameLoop_constructor (Fin 5) tally 0))))
        (fpsInterval (projr (GameLoop_constructor (Fin 5) tally 0)))"
    by (simp add: tick_defs)
  from no_fire_frame [OF n, of host0] n show ?thesis
    by (simp add: tick_defs host0_def)
qed

section \<open>The first tick\<close>

text \<open>
  C9 (first tick under an absolute clock). The constructor sets \<open>frameOffset\<close> to 0,
  not to the clock reading; so on the first tick the gate compares the clock reading
  itself with the interval. Whenever that reading is greater than the interval, the
  first tick invokes the callback, whatever the clock read at construction: the
  callback acts once on its world and the tick ends as the callback ended.
\<close>

theorem first_tick_fires:
  assumes "GameLoop_constructor R cb c0 = Inr g0"
    and "epochTime t"
    and "js_gt (ms t) (js_div (Fin 1000) R)"
  shows "frameOffset g0 = Fin 0 \<and> fpsInterval g0 = js_div (Fin 1000) R \<and>
         calls (host_of (runLoop t g0 h)) = calls h + 1 \<and>
         trace (host_of (runLoop t g0 h)) = trace h @ [RequestFrame, Draw] \<and>
         world (host_of (runLoop t g0 h)) = snd (cb (world h)) \<and>
         result_of (runLoop t g0 h) = fst (cb (world h))"
proof -
  from assms(1) have f: "frameOffset g0 = Fin 0"
    and i: "fpsInterval g0 = js_div (Fin 1000) R" and c: "drawCall g0 = cb"
    by (auto simp: GameLoop_constructor_def)
  from assms(2) have "\<bar>t - 0\<bar> < 2 ^ 53"
    by (simp add: epochTime_def abs_less_iff)
  from js_sub_int [OF this] have "js_sub (ms t) (Fin 0) = ms t"
    by (simp add: ms_def)
  with f i assms(3) have "gate t g0" by (simp add: gate_def)
  with f i c show ?thesis
    by (simp add: runLoop_calls runLoop_trace runLoop_world runLoop_result)
qed

text \<open>
  Built at 1700000000000 ms since the epoch, ticked one millisecond later: the callback
  is invoked.
\<close>

theorem first_tick_fires_witness:
  "epochTime 1700000000001 \<and>
   js_gt (ms 1700000000001) (js_div (Fin 1000) (Fin 5)) \<and>
   timeOffset (projr (GameLoop_constructor (Fin 5) tally 1700000000000)) = ms 1700000000000 \<and>
   calls (host_of (runLoop 1700000000001
      (projr (GameLoop_constructor (Fin 5) tally 1700000000000)) host0)) = 1 \<and>
   world (host_of (runLoop 1700000000001
      (projr (GameLoop_constructor (Fin 5) tally 1700000000000)) host0)) = 1 \<and>
   trace (host_of (runLoop 1700000000001
      (projr (GameLoop_constructor (Fin 5) tally 1700000000000)) host0)) = [RequestFrame, Draw]"
proof -
  have c: "GameLoop_constructor (Fin 5) tally 1700000000000 =
      Inr (projr (GameLoop_constructor (Fin 5) tally 1700000000000))"
    by (simp add: GameLoop_constructor_def)
  have e: "epochTime 1700000000001" by (simp add: epochTime_def)
  have j: "js_gt (ms 1700000000001) (js_div (Fin 1000) (Fin 5))"
    by (simp add: tick_defs)
  from first_tick_fires [OF c e j, of host0] e j show ?thesis
    by (simp add: GameLoop_constructor_def host0_def calls_def tally_def)
qed

section \<open>Elapsed time\<close>

lemma runLoop_timeOffset: "timeOffset (loop_of (runLoop t g h)) = timeOffset g"
  by (simp add: runLoop_loop Let_def)

lemma runLoop_time: "time (loop_of (runLoop t g h)) = js_sub (ms t) (timeOffset g)"
  by (simp add: runLoop_loop Let_def)

lemma runLoop_timeDelta:
  "timeDelta (loop_of (runLoop t g h)) = js_sub (time (loop_of (runLoop t g h))) (time g)"
  by (simp add: runLoop_loop Let_def)

lemma history_time:
  "map (time \<circ> fst) (history ts s) = map (\<lambda>t. js_sub (ms t) (timeOffset (fst s))) ts"
  by (induction ts arbitrary: s) (simp_all add: runLoop_time runLoop_timeOffset)

lemma history_timeDelta:
  "i < length ts \<Longrightarrow>
   timeDelta (fst (history ts s ! i)) =
     js_sub (time (fst (history ts s ! i))) (time (fst ((s # history ts s) ! i)))"
proof (induction ts arbitrary: s i)
  case Nil
  then show ?case by simp
next
  case (Cons t ts)
  show ?case
  proof (cases i)
    case 0
    then show ?thesis by (simp add: runLoop_timeDelta)
  next
    case (Suc j)
    with Cons.prems have "j < length ts" by simp
    from Cons.IH [OF this, of "snd (runLoop t (fst s) (snd s))"] Suc
    show ?thesis by simp
  qed
qed

text \<open>
  C8 (monotonic elapsed time). Take a scheduler built at clock reading \<open>c0\<close> and ticked
  at clock readings that do not decrease, all of them time values since 1970. After
  the tick at \<open>t\<close>, \<open>time\<close> is \<open>t - c0\<close>; so the values of \<open>time\<close> after the successive
  ticks do not decrease; and after each tick \<open>timeDelta\<close> is the new \<open>time\<close> minus the
  \<open>time\<close> before that tick (for the first tick, the 0 of the constructor).
\<close>

theorem monotonic_elapsed_time:
  assumes "GameLoop_constructor R cb c0 = Inr g0" and "sorted ts"
    and "epochTime c0" and "\<forall>t \<in> set ts. epochTime t"
  shows "map (time \<circ> fst) (history ts (g0, h0)) = map (\<lambda>t. ms (t - c0)) ts \<and>
         sorted_wrt js_le (map (time \<circ> fst) (history ts (g0, h0))) \<and>
         (\<forall>i < length ts.
            timeDelta (fst (history ts (g0, h0) ! i)) =
              js_sub (time (fst (history ts (g0, h0) ! i)))
                     (time (fst (((g0, h0) # history ts (g0, h0)) ! i))))"
proof -
  from assms(1) have o: "timeOffset g0 = ms c0"
    by (auto simp: GameLoop_constructor_def)
  have "js_sub (ms t) (ms c0) = ms (t - c0)" if "t \<in> set ts" for t
  proof -
    from that assms(3,4) have "\<bar>t - c0\<bar> < 2 ^ 53"
      by (auto simp: epochTime_def abs_less_iff)
    then show ?thesis by (rule js_sub_int)
  qed
  with o have m: "map (time \<circ> fst) (history ts (g0, h0)) = map (\<lambda>t. ms (t - c0)) ts"
    by (simp add: history_time)
  from assms(2) have "sorted_wrt js_le (map (\<lambda>t. ms (t - c0)) ts)"
    by (simp add: sorted_wrt_map ms_def sorted_wrt_mono_rel [of ts "(\<le>)"])
  with m show ?thesis
    by (simp add: history_timeDelta)
qed

text \<open>
  Built at 990, ticked at 1000, 1016, 1016 and 1033.
\<close>

theorem monotonic_elapsed_time_witness:
  "sorted [1000, 1016, 1016, 1033 :: int] \<and> epochTime 990 \<and>
   epochTime 1000 \<and> epochTime 1016 \<and> epochTime 1033 \<and>
   map (time \<circ> fst) (history [1000, 1016, 1016, 1033]
       (projr (GameLoop_constructor (Fin 5) tally 990), host0)) = [Fin 10, Fin 26, Fin 26, Fin 43] \<and>
   map (timeDelta \<circ> fst) (history [1000, 1016, 1016, 1033]
       (projr (GameLoop_constructor (Fin 5) tally 990), host0)) = [Fin 10, Fin 16, Fin 0, Fin 17] \<and>
   sorted_wrt js_le (map (time \<circ> fst) (history [1000, 1016, 1016, 1033]
       (projr (GameLoop_constructor (Fin 5) tally 990), host0)))"
proof -
  have c: "GameLoop_constructor (Fin 5) tally 990 =
      Inr (projr (GameLoop_constructor (Fin 5) tally 990))"
    by (simp add: GameLoop_constructor_def)
  have s: "sorted [1000, 1016, 1016, 1033 :: int]" by simp
  have e: "epochTime 990" "\<forall>t \<in> set [1000, 1016, 1016, 1033]. epochTime t"
    by (simp_all add: epochTime_def)
  have d: "map (timeDelta \<circ> fst) (history [1000, 1016, 1016, 1033]
       (projr (GameLoop_constructor (Fin 5) tally 990), host0)) = [Fin 10, Fin 16, Fin 0, Fin 17]"
    by (simp add: tick_defs tally_def host0_def)
  have e': "epochTime 1000" "epochTime 1016" "epochTime 1033"
    by (simp_all add: epochTime_def)
  from monotonic_elapsed_time [OF c s e, of host0] s e e' d show ?thesis
    by (simp add: ms_def)
qed

section \<open>A callback that throws\<close>

text \<open>
  At 5 Hz with a callback that always throws: the first tick, at 1016 ms, returns the
  exception, and one animation frame is pending after it. The browser serves it at
  1300 ms: \<^verbatim>\<open>runLoop\<close> runs again, invokes the callback again, and has requested the
  next frame again. The loop has not stopped.
\<close>

theorem failing_callback_loop_continues:
  "result_of (runLoop 1016 (projr (GameLoop_constructor (Fin 5) failing 0)) host0) =
     Inl (Thrown ''draw failed'') \<and>
   rafQueue (host_of (runLoop 1016 (projr (GameLoop_constructor (Fin 5) failing 0)) host0)) = 1 \<and>
   animationFrame 1300 (snd (runLoop 1016 (projr (GameLoop_constructor (Fin 5) failing 0)) host0))
     \<noteq> None \<and>
   trace (host_of (the (animationFrame 1300
       (snd (runLoop 1016 (projr (GameLoop_constructor (Fin 5) failing 0)) host0))))) =
     [RequestFrame, Draw, RequestFrame, Draw] \<and>
   rafQueue (host_of (the (animationFrame 1300
       (snd (runLoop 1016 (projr (GameLoop_constructor (Fin 5) failing 0)) host0))))) = 1"
  by (simp add: tick_defs animationFrame_def failing_def host0_def)

text \<open>
  C6 (callback failure), as the code has it: a tick returns an exception only when the
  gate passed and the callback threw it: \<^verbatim>\<open>runLoop\<close> passes it on unchanged. The next
  animation frame was requested before the callback ran, so one more registration is
  pending after the failing tick; at the next frame, at any clock reading \<open>t'\<close>, the
  browser runs \<^verbatim>\<open>runLoop\<close> again, which requests a frame again: the loop goes on.
\<close>

theorem callback_failure_propagates:
  assumes "result_of (runLoop t g h) = Inl e"
  shows "gate t g \<and> fst (drawCall g (world h)) = Inl e \<and>
         rafQueue (host_of (runLoop t g h)) = Suc (rafQueue h) \<and>
         (\<exists>x. animationFrame t' (snd (runLoop t g h)) = Some x \<and>
              rafQueue (host_of x) = Suc (rafQueue h) \<and>
              trace (host_of x) =
                trace h @ [RequestFrame, Draw, RequestFrame] @
                (if gate t' (loop_of (runLoop t g h)) then [Draw] else []))"
proof -
  from assms have g: "gate t g" and e: "fst (drawCall g (world h)) = Inl e"
    by (simp_all add: runLoop_result split: if_splits)
  have q: "rafQueue (host_of (runLoop t g h)) = Suc (rafQueue h)"
    by (rule runLoop_rafQueue)
  have tr: "trace (host_of (runLoop t g h)) = trace h @ [RequestFrame, Draw]"
    using g by (simp add: runLoop_trace)
  from q tr have "\<exists>x. animationFrame t' (snd (runLoop t g h)) = Some x \<and>
              rafQueue (host_of x) = Suc (rafQueue h) \<and>
              trace (host_of x) =
                trace h @ [RequestFrame, Draw, RequestFrame] @
                (if gate t' (loop_of (runLoop t g h)) then [Draw] else [])"
    by (simp add: animationFrame_def runLoop_rafQueue runLoop_trace)
  with g e q show ?thesis by blast
qed

text \<open>
  The failing first tick at 1016 ms, then the frame at 1033 ms: it runs, does not fire,
  and leaves one registration pending.
\<close>

theorem callback_failure_propagates_witness:
  "result_of (runLoop 1016 (projr (GameLoop_constructor (Fin 5) failing 0)) host0) =
     Inl (Thrown ''draw failed'') \<and>
   rafQueue (host_of (runLoop 1016 (projr (GameLoop_constructor (Fin 5) failing 0)) host0)) = 1 \<and>
   (\<exists>x. animationFrame 1033
          (snd (runLoop 1016 (projr (GameLoop_constructor (Fin 5) failing 0)) host0)) = Some x \<and>
        rafQueue (host_of x) = 1 \<and>
        trace (host_of x) = [RequestFrame, Draw, RequestFrame])"
proof -
  have r: "result_of (runLoop 1016 (projr (GameLoop_constructor (Fin 5) failing 0)) host0) =
     Inl (Thrown ''draw failed'')"
    by (simp add: tick_defs failing_def host0_def gate_def)
  have n: "\<not> gate 1033 (loop_of (runLoop 1016 (projr (GameLoop_constructor (Fin 5) failing 0)) host0))"
    by (simp add: tick_defs failing_def host0_def gate_def)
  have h: "rafQueue host0 = 0" "trace host0 = []"
    by (simp_all add: host0_def)
  from callback_failure_propagates [OF r, of 1033] r n h show ?thesis
    by simp
qed

text \<open>
  C10 (no rollback on callback failure). On every tick the next frame is requested
  first: the trace of the tick is \<open>RequestFrame\<close>, then \<open>Draw\<close> if the gate passed. The
  scheduler's fields after the tick do not depend on the callback at all (with any
  other callback \<open>f\<close> in its place they are the same). So when the callback throws,
  \<open>time\<close>, \<open>timeDelta\<close>, \<open>timeInFrame\<close> and \<open>frameOffset\<close> hold their new values and
  the registration has been made.
\<close>

theorem no_rollback_on_failure:
  "rafQueue (host_of (runLoop t g h)) = Suc (rafQueue h) \<and>
   trace (host_of (runLoop t g h)) =
     trace h @ RequestFrame # (if gate t g then [Draw] else []) \<and>
   loop_of (runLoop t g h) = (loop_of (runLoop t (g\<lparr>drawCall := f\<rparr>) h))\<lparr>drawCall := drawCall g\<rparr> \<and>
   (result_of (runLoop t g h) = Inl e \<longrightarrow>
      time (loop_of (runLoop t g h)) = js_sub (ms t) (timeOffset g) \<and>
      timeDelta (loop_of (runLoop t g h)) = js_sub (js_sub (ms t) (timeOffset g)) (time g) \<and>
      timeInFrame (loop_of (runLoop t g h)) = js_sub (ms t) (frameOffset g) \<and>
      frameOffset (loop_of (runLoop t g h)) =
        js_sub (ms t) (js_rem (js_sub (ms t) (frameOffset g)) (fpsInterval g)) \<and>
      trace (host_of (runLoop t g h)) = trace h @ [RequestFrame, Draw])"
proof -
  have "gate t (g\<lparr>drawCall := f\<rparr>) = gate t g"
    by (simp add: gate_def)
  then have ind: "loop_of (runLoop t g h) =
      (loop_of (runLoop t (g\<lparr>drawCall := f\<rparr>) h))\<lparr>drawCall := drawCall g\<rparr>"
    by (simp add: runLoop_loop Let_def)
  have "gate t g" if "result_of (runLoop t g h) = Inl e"
    using that by (simp add: runLoop_result split: if_splits)
  with ind show ?thesis
    by (simp add: runLoop_rafQueue runLoop_trace runLoop_loop Let_def)
qed

text \<open>
  At 5 Hz, built at 0, a first tick at 1016 ms whose callback throws.
\<close>

theorem no_rollback_on_failure_witness:
  "result_of (runLoop 1016 (projr (GameLoop_constructor (Fin 5) failing 0)) host0) =
     Inl (Thrown ''draw failed'') \<and>
   loop_of (runLoop 1016 (projr (GameLoop_constructor (Fin 5) failing 0)) host0) =
     \<lparr>fps = Fin 5, fpsInterval = Fin 200, drawCall = failing, timeOffset = Fin 0,
      frameOffset = Fin 1000, time = Fin 1016, timeInFrame = Fin 1016, timeDelta = Fin 1016\<rparr> \<and>
   rafQueue (host_of (runLoop 1016 (projr (GameLoop_constructor (Fin 5) failing 0)) host0)) = 1 \<and>
   trace (host_of (runLoop 1016 (projr (GameLoop_constructor (Fin 5) failing 0)) host0)) =
     [RequestFrame, Draw]"
proof -
  have r: "result_of (runLoop 1016 (projr (GameLoop_constructor (Fin 5) failing 0)) host0) =
     Inl (Thrown ''draw failed'')"
    by (simp add: tick_defs failing_def host0_def)
  have l: "loop_of (runLoop 1016 (projr (GameLoop_constructor (Fin 5) failing 0)) host0) =
     \<lparr>fps = Fin 5, fpsInterval = Fin 200, drawCall = failing, timeOffset = Fin 0,
      frameOffset = Fin 1000, time = Fin 1016, timeInFrame = Fin 1016, timeDelta = Fin 1016\<rparr>"
    by (simp add: tick_defs failing_def host0_def)
  have h: "rafQueue host0 = 0" "trace host0 = []"
    by (simp_all add: host0_def)
  note T = no_rollback_on_failure
    [of 1016 "projr (GameLoop_constructor (Fin 5) failing 0)" host0 tally "Thrown ''draw failed''"]
  from T have "rafQueue (host_of (runLoop 1016 (projr (GameLoop_constructor (Fin 5) failing 0)) host0)) =
      Suc (rafQueue host0)"
    by blast
  with h have q:
    "rafQueue (host_of (runLoop 1016 (projr (GameLoop_constructor (Fin 5) failing 0)) host0)) = 1"
    by simp
  from T r have "trace (host_of (runLoop 1016 (projr (GameLoop_constructor (Fin 5) failing 0)) host0)) =
      trace host0 @ [RequestFrame, Draw]"
    by blast
  with h have tr:
    "trace (host_of (runLoop 1016 (projr (GameLoop_constructor (Fin 5) failing 0)) host0)) =
       [RequestFrame, Draw]"
    by simp
  from r l q tr
  show ?thesis by simp
qed

section \<open>A 5 Hz scheduler on a 60 Hz display\<close>



end
